theory Spec2Isabelle
  imports Complex_Main
begin

section \<open>Strings and numbers of the host language\<close>

text \<open>
  The numbers of the program are doubles. The numbers of the wire protocol and of the
  settings are integers here. \<^verbatim>\<open>Number.isSafeInteger\<close>: every integer of magnitude
  below \<open>2 ^ 53\<close> is a double, and the arithmetic of the program on such integers
  is exact as long as its result is one of them. Statements about line numbers,
  complexity figures and timeouts carry this bound as a hypothesis.
\<close>

definition isSafeInteger :: "int \<Rightarrow> bool" where
  "isSafeInteger i = (\<bar>i\<bar> < 2 ^ 53)"

text \<open>
  \<^verbatim>\<open>String.prototype.includes\<close>: the search string occurs somewhere in the
  receiver. The search runs over the positions of the receiver from left to right and
  compares code units; \<open>str_includes_iff\<close> below states it without the search.
\<close>

fun str_includes :: "string \<Rightarrow> string \<Rightarrow> bool" where
  "str_includes [] sub = (sub = [])"
| "str_includes (c # cs) sub = (take (length sub) (c # cs) = sub \<or> str_includes cs sub)"

text \<open>
  \<^verbatim>\<open>s.replace(/[\r\n]+$/, '')\<close>: the regular expression matches the longest run
  of carriage returns and line feeds that ends the string, and the run is removed.
\<close>

definition is_newline :: "char \<Rightarrow> bool" where
  "is_newline c = (c = CHR 0x0D \<or> c = CHR 0x0A)"

definition strip_trailing_newlines :: "string \<Rightarrow> string" where
  "strip_trailing_newlines s = rev (dropWhile is_newline (rev s))"

text \<open>
  A template literal \<^verbatim>\<open>${n}\<close> renders an integral number in decimal, with a
  leading minus sign when it is negative. The digits are produced from the least
  significant one, each put in front of those already there. This is the rendering
  of the program for a safe integer. Beyond the safe integers the program renders the
  shortest digits that identify the double, followed by zeros, and from \<open>10 ^ 21\<close>
  on it uses exponent notation; neither is modelled. The lengths of arrays are safe
  integers; statements about the rendered figures of a complexity response carry
  \<open>isSafeInteger\<close> as a hypothesis.
\<close>

definition digit_char :: "nat \<Rightarrow> char" where
  "digit_char d = ''0123456789'' ! d"

function decimal_digits :: "nat \<Rightarrow> string \<Rightarrow> string" where
  "decimal_digits n acc =
     (if n div 10 = 0 then digit_char (n mod 10) # acc
      else decimal_digits (n div 10) (digit_char (n mod 10) # acc))"
  by pat_completeness auto
termination
  by (relation "measure fst") auto

declare decimal_digits.simps [simp del]

definition number_to_string :: "int \<Rightarrow> string" where
  "number_to_string i =
     (if 0 \<le> i then decimal_digits (nat i) [] else CHR ''-'' # decimal_digits (nat (- i)) [])"

text \<open>
  \<^verbatim>\<open>a || b\<close> on an optional string and on an optional number: the left operand
  is taken unless it is falsy (undefined, the empty string, zero).
\<close>

definition or_string :: "string option \<Rightarrow> string \<Rightarrow> string" where
  "or_string v d = (case v of None \<Rightarrow> d | Some s \<Rightarrow> if s = [] then d else s)"

definition or_number :: "int option \<Rightarrow> int \<Rightarrow> int" where
  "or_number v d = (case v of None \<Rightarrow> d | Some t \<Rightarrow> if t = 0 then d else t)"

text \<open>
  \<^verbatim>\<open>path.basename\<close> of a file name with \<^verbatim>\<open>/\<close> as separator: trailing
  separators are ignored, and the result is the part after the last separator that
  remains.
\<close>

definition basename :: "string \<Rightarrow> string" where
  "basename p =
     rev (takeWhile (\<lambda>c. c \<noteq> CHR ''/'') (dropWhile (\<lambda>c. c = CHR ''/'') (rev p)))"

section \<open>Thrown errors\<close>

text \<open>
  An error thrown inside the \<^verbatim>\<open>try\<close> block of a command, with the fields the
  \<^verbatim>\<open>catch\<close> blocks read: its \<^verbatim>\<open>code\<close> (set by axios: \<^verbatim>\<open>ECONNREFUSED\<close>
  when the service is unreachable, \<^verbatim>\<open>ECONNABORTED\<close> on a timeout), its
  \<^verbatim>\<open>message\<close> and its \<^verbatim>\<open>name\<close>.
\<close>

record axios_error =
  e_code :: "string option"
  e_message :: string
  e_name :: string

text \<open>
  The error of the editor API for a negative line: the constructor of a position
  throws \<^verbatim>\<open>illegalArgument('line must be non-negative')\<close>, an \<^verbatim>\<open>Error\<close> without
  a code.
\<close>

definition illegal_line :: axios_error where
  "illegal_line =
     \<lparr>e_code = None, e_message = ''Illegal argument: line must be non-negative'',
      e_name = ''Error''\<rparr>"

section \<open>Editor data\<close>

datatype DiagnosticSeverity = Error | Warning | Information | Hint

text \<open>\<^verbatim>\<open>Number.MAX_VALUE\<close>, the largest finite double, is an integer.\<close>

definition MAX_VALUE :: nat where
  "MAX_VALUE = 2 ^ 1024 - 2 ^ 971"

text \<open>A \<^verbatim>\<open>vscode.Range\<close>: a start position and an end position, as line and character.\<close>

record Range =
  start_line :: int
  start_character :: nat
  end_line :: int
  end_character :: nat

text \<open>
  \<^verbatim>\<open>new vscode.Range(startLine, startCharacter, endLine, endCharacter)\<close> builds the
  two positions, which throws when a line is negative (a character cannot be negative
  here), and orders them: the first is the start when it is before the second.
\<close>

definition new_Range :: "int \<Rightarrow> nat \<Rightarrow> int \<Rightarrow> nat \<Rightarrow> axios_error + Range" where
  "new_Range startLine startCharacter endLine endCharacter =
     (if startLine < 0 \<or> endLine < 0 then Inl illegal_line
      else if startLine < endLine \<or> (startLine = endLine \<and> startCharacter < endCharacter)
      then Inr \<lparr>start_line = startLine, start_character = startCharacter,
                 end_line = endLine, end_character = endCharacter\<rparr>
      else Inr \<lparr>start_line = endLine, start_character = endCharacter,
                 end_line = startLine, end_character = startCharacter\<rparr>)"

text \<open>
  The range of the whole line \<open>lineIndex\<close>: what
  \<^verbatim>\<open>new vscode.Range(lineIndex, 0, lineIndex, Number.MAX_VALUE)\<close> returns when the
  line index is not negative (\<open>new_Range_line\<close> below).
\<close>

definition line_range :: "int \<Rightarrow> Range" where
  "line_range lineIndex =
     \<lparr>start_line = lineIndex, start_character = 0,
      end_line = lineIndex, end_character = MAX_VALUE\<rparr>"

text \<open>
  A \<^verbatim>\<open>vscode.Diagnostic\<close>. The constructor sets range, message and severity;
  \<^verbatim>\<open>source\<close> and \<^verbatim>\<open>code\<close> are undefined until they are assigned. There is
  no category field: the handlers tell categories apart by the text of the message.
\<close>

record Diagnostic =
  d_range :: Range
  d_message :: string
  d_severity :: DiagnosticSeverity
  d_source :: "string option"
  d_code :: "string option"

record TextDocument =
  doc_uri :: string
  doc_fileName :: string
  doc_text :: string

datatype notification =
  InformationMessage string
| WarningMessage string
| ErrorMessage string

text \<open>
  The state of the extension that the commands change, as far as it is modelled: the
  diagnostic collection (a map from document URI to the diagnostics of that document)
  and the notifications shown to the user by \<^verbatim>\<open>showInformationMessage\<close>,
  \<^verbatim>\<open>showWarningMessage\<close> and \<^verbatim>\<open>showErrorMessage\<close>, oldest first. The
  messages posted to the sidebar, the lines of the output channel and the status bar
  are presentation only and are left out; none of them reads or writes the collection.
\<close>

record ext_state =
  diagnosticCollection :: "string \<rightharpoonup> Diagnostic list"
  shown :: "notification list"

text \<open>
  The two settings. A timeout is an integral number of milliseconds. The timeout of a
  request is a rational, since the security scan multiplies by 1.5. The product is
  taken exactly here; the double of the program is that product whenever three times
  the timeout is a safe integer, and is rounded or infinite for some larger timeouts.
  Statements about the product carry this bound as a hypothesis.
\<close>

record config =
  backendUrl :: "string option"
  requestTimeout :: "int option"

section \<open>Wire protocol\<close>

text \<open>
  The entries of \<^verbatim>\<open>response.data.comments\<close> (review and security scan) and of
  \<^verbatim>\<open>response.data.functions\<close> (complexity), with the fields the commands read.
  \<^verbatim>\<open>severity\<close> and \<^verbatim>\<open>fixed_code\<close> may be missing. \<^verbatim>\<open>line_number\<close>
  counts lines from 1 in the protocol; the commands do not check it, and a response
  with a smaller line number makes the editor API throw.
\<close>

record review_comment =
  line_number :: int
  severity :: "string option"
  suggestion :: string
  fixed_code :: "string option"

record function_info =
  fn_name :: string
  fn_line_number :: int
  fn_complexity :: int
  fn_is_complex :: bool

record complexity_data =
  c_functions :: "function_info list"
  c_threshold :: int

text \<open>
  One \<^verbatim>\<open>axios.post(url, {full_file_content, file_path}, {timeout})\<close> call, and
  what it produces: the response data, or a thrown error.
\<close>

record request =
  req_url :: string
  req_full_file_content :: string
  req_file_path :: string
  req_timeout :: rat

datatype 'a outcome = Success 'a | Failure axios_error

section \<open>Ingestion\<close>

definition mapSeverity :: "string \<Rightarrow> DiagnosticSeverity" where
  "mapSeverity s =
     (if s = ''error'' then Error
      else if s = ''warning'' then Warning
      else if s = ''info'' then Information
      else if s = ''hint'' then Hint
      else Warning)"

definition getBackendUrl :: "config \<Rightarrow> string" where
  "getBackendUrl cfg = or_string (backendUrl cfg) ''http://127.0.0.1:8000''"

definition get_diagnostics :: "ext_state \<Rightarrow> string \<Rightarrow> Diagnostic list" where
  "get_diagnostics st u = (case diagnosticCollection st u of None \<Rightarrow> [] | Some ds \<Rightarrow> ds)"

definition set_diagnostics :: "string \<Rightarrow> Diagnostic list \<Rightarrow> ext_state \<Rightarrow> ext_state" where
  "set_diagnostics u ds st = st\<lparr>diagnosticCollection := (diagnosticCollection st)(u \<mapsto> ds)\<rparr>"

definition notify :: "notification \<Rightarrow> ext_state \<Rightarrow> ext_state" where
  "notify n st = st\<lparr>shown := shown st @ [n]\<rparr>"

subsection \<open>Throwing callbacks\<close>

text \<open>
  \<^verbatim>\<open>Array.prototype.map\<close> with a callback that may throw: the callback is called on
  the elements in order, and the first error it throws ends the call.
\<close>

fun array_map :: "('a \<Rightarrow> axios_error + 'b) \<Rightarrow> 'a list \<Rightarrow> axios_error + 'b list" where
  "array_map f [] = Inr []"
| "array_map f (x # xs) =
     (case f x of
        Inl error \<Rightarrow> Inl error
      | Inr y \<Rightarrow> (case array_map f xs of Inl error \<Rightarrow> Inl error | Inr ys \<Rightarrow> Inr (y # ys)))"

subsection \<open>Review\<close>

text \<open>
  The body of the loop over the comments of a review. Building the range throws when
  \<open>line_number - 1\<close> is negative.
\<close>

definition try_review_diagnostic :: "review_comment \<Rightarrow> axios_error + Diagnostic" where
  "try_review_diagnostic review =
     (let lineIndex = line_number review - 1 in
      case new_Range lineIndex 0 lineIndex MAX_VALUE of
        Inl error \<Rightarrow> Inl error
      | Inr rng \<Rightarrow>
          Inr \<lparr>d_range = rng,
               d_message = ''DevSentinel: '' @ suggestion review,
               d_severity = mapSeverity (or_string (severity review) ''warning''),
               d_source = Some ''DevSentinel'',
               d_code = fixed_code review\<rparr>)"

text \<open>
  The diagnostic that the body builds for a comment whose line number is at least 1
  (\<open>try_review_diagnostic_eq\<close> below).
\<close>

definition review_diagnostic :: "review_comment \<Rightarrow> Diagnostic" where
  "review_diagnostic review =
     (let lineIndex = line_number review - 1 in
      \<lparr>d_range = line_range lineIndex,
       d_message = ''DevSentinel: '' @ suggestion review,
       d_severity = mapSeverity (or_string (severity review) ''warning''),
       d_source = Some ''DevSentinel'',
       d_code = fixed_code review\<rparr>)"

text \<open>
  The \<^verbatim>\<open>for (const review of reviews)\<close> loop, pushing onto \<^verbatim>\<open>diagnostics\<close>; an
  error thrown by the body ends it.
\<close>

fun review_loop ::
  "review_comment list \<Rightarrow> Diagnostic list \<Rightarrow> axios_error + Diagnostic list" where
  "review_loop [] diagnostics = Inr diagnostics"
| "review_loop (review # reviews) diagnostics =
     (case try_review_diagnostic review of
        Inl error \<Rightarrow> Inl error
      | Inr diagnostic \<Rightarrow> review_loop reviews (diagnostics @ [diagnostic]))"

definition review_request :: "config \<Rightarrow> TextDocument \<Rightarrow> request" where
  "review_request cfg document =
     \<lparr>req_url = getBackendUrl cfg @ ''/review'',
      req_full_file_content = doc_text document,
      req_file_path = basename (doc_fileName document),
      req_timeout = of_int (or_number (requestTimeout cfg) 90000)\<rparr>"

definition review_failed :: "axios_error \<Rightarrow> notification" where
  "review_failed error =
     (let msg = (if e_message error = [] then e_name error else e_message error) in
      if e_code error = Some ''ECONNREFUSED''
      then ErrorMessage ''DevSentinel: Could not connect to backend. Is it running?''
      else if e_code error = Some ''ECONNABORTED''
      then ErrorMessage
        (''DevSentinel: Request timed out. Try increasing '' @ [CHR 0x22]
          @ ''devsentinel.requestTimeout'' @ [CHR 0x22] @ '' in settings.'')
      else ErrorMessage (''DevSentinel Error: '' @ msg))"

text \<open>
  The command. Whatever is thrown inside the \<^verbatim>\<open>try\<close> block, by the backend call
  or by the loop, is handled by the one \<^verbatim>\<open>catch\<close> block; the collection is
  written after the loop has ended.
\<close>

definition devsentinel_review ::
  "(request \<Rightarrow> review_comment list outcome) \<Rightarrow> config \<Rightarrow> TextDocument option \<Rightarrow>
   ext_state \<Rightarrow> ext_state" where
  "devsentinel_review post cfg editor st =
     (case editor of
        None \<Rightarrow> notify (ErrorMessage ''No active editor found.'') st
      | Some document \<Rightarrow>
          (case post (review_request cfg document) of
             Success reviews \<Rightarrow>
               (case review_loop reviews [] of
                  Inl error \<Rightarrow> notify (review_failed error) st
                | Inr diagnostics \<Rightarrow>
                    notify
                      (if length reviews = 0
                       then InformationMessage
                         ''DevSentinel: Code looks good! No issues found.''
                       else InformationMessage
                         (''DevSentinel: Found '' @ number_to_string (int (length reviews))
                           @ '' issues.''))
                      (set_diagnostics (doc_uri document) diagnostics st))
           | Failure error \<Rightarrow> notify (review_failed error) st))"

subsection \<open>Security scan\<close>

definition try_security_diagnostic :: "review_comment \<Rightarrow> axios_error + Diagnostic" where
  "try_security_diagnostic review =
     (let lineIndex = line_number review - 1 in
      case new_Range lineIndex 0 lineIndex MAX_VALUE of
        Inl error \<Rightarrow> Inl error
      | Inr rng \<Rightarrow>
          Inr \<lparr>d_range = rng,
               d_message = ''[SECURITY] DevSentinel: '' @ suggestion review,
               d_severity = mapSeverity (or_string (severity review) ''error''),
               d_source = Some ''DevSentinel'',
               d_code = fixed_code review\<rparr>)"

text \<open>
  The diagnostic that the callback builds for a comment whose line number is at
  least 1 (\<open>try_security_diagnostic_eq\<close> below).
\<close>

definition security_diagnostic :: "review_comment \<Rightarrow> Diagnostic" where
  "security_diagnostic review =
     (let lineIndex = line_number review - 1 in
      \<lparr>d_range = line_range lineIndex,
       d_message = ''[SECURITY] DevSentinel: '' @ suggestion review,
       d_severity = mapSeverity (or_string (severity review) ''error''),
       d_source = Some ''DevSentinel'',
       d_code = fixed_code review\<rparr>)"

definition securityScan_request :: "config \<Rightarrow> TextDocument \<Rightarrow> request" where
  "securityScan_request cfg document =
     \<lparr>req_url = getBackendUrl cfg @ ''/security-scan'',
      req_full_file_content = doc_text document,
      req_file_path = basename (doc_fileName document),
      req_timeout = of_int (or_number (requestTimeout cfg) 90000) * (3 / 2)\<rparr>"

definition securityScan_failed :: "axios_error \<Rightarrow> notification" where
  "securityScan_failed error =
     (if e_code error = Some ''ECONNREFUSED''
      then ErrorMessage ''DevSentinel: Could not connect to backend. Is it running?''
      else if e_code error = Some ''ECONNABORTED''
      then ErrorMessage ''DevSentinel: Security scan timed out.''
      else ErrorMessage (''DevSentinel Security Scan Error: '' @ e_message error))"

definition devsentinel_securityScan ::
  "(request \<Rightarrow> review_comment list outcome) \<Rightarrow> config \<Rightarrow> TextDocument option \<Rightarrow>
   ext_state \<Rightarrow> ext_state" where
  "devsentinel_securityScan post cfg editor st =
     (case editor of
        None \<Rightarrow> notify (ErrorMessage ''No active editor found.'') st
      | Some document \<Rightarrow>
          (case post (securityScan_request cfg document) of
             Success reviews \<Rightarrow>
               (let existing = get_diagnostics st (doc_uri document);
                    kept = filter (\<lambda>d. \<not> str_includes (d_message d) ''[SECURITY]'') existing
                in case array_map try_security_diagnostic reviews of
                     Inl error \<Rightarrow> notify (securityScan_failed error) st
                   | Inr newDiags \<Rightarrow>
                       notify
                         (if length reviews = 0
                          then InformationMessage ''DevSentinel: No security issues found!''
                          else WarningMessage
                            (''DevSentinel: Found '' @ number_to_string (int (length reviews))
                              @ '' security issue(s).''))
                         (set_diagnostics (doc_uri document) (kept @ newDiags) st))
           | Failure error \<Rightarrow> notify (securityScan_failed error) st))"

subsection \<open>Complexity\<close>

definition try_complexity_diagnostic :: "int \<Rightarrow> function_info \<Rightarrow> axios_error + Diagnostic" where
  "try_complexity_diagnostic threshold f =
     (let lineIndex = fn_line_number f - 1 in
      case new_Range lineIndex 0 lineIndex MAX_VALUE of
        Inl error \<Rightarrow> Inl error
      | Inr rng \<Rightarrow>
          Inr \<lparr>d_range = rng,
               d_message = ''[COMPLEXITY] DevSentinel: Function '' @ [CHR 0x27] @ fn_name f
                 @ [CHR 0x27] @ '' has cyclomatic complexity of ''
                 @ number_to_string (fn_complexity f)
                 @ '' (threshold: '' @ number_to_string threshold @ '')'',
               d_severity = Warning,
               d_source = Some ''DevSentinel'',
               d_code = None\<rparr>)"

text \<open>
  The diagnostic that the callback builds for a function whose line number is at
  least 1 (\<open>try_complexity_diagnostic_eq\<close> below).
\<close>

definition complexity_diagnostic :: "int \<Rightarrow> function_info \<Rightarrow> Diagnostic" where
  "complexity_diagnostic threshold f =
     (let lineIndex = fn_line_number f - 1 in
      \<lparr>d_range = line_range lineIndex,
       d_message = ''[COMPLEXITY] DevSentinel: Function '' @ [CHR 0x27] @ fn_name f @ [CHR 0x27]
         @ '' has cyclomatic complexity of '' @ number_to_string (fn_complexity f)
         @ '' (threshold: '' @ number_to_string threshold @ '')'',
       d_severity = Warning,
       d_source = Some ''DevSentinel'',
       d_code = None\<rparr>)"

definition complexity_request :: "config \<Rightarrow> TextDocument \<Rightarrow> request" where
  "complexity_request cfg document =
     \<lparr>req_url = getBackendUrl cfg @ ''/complexity'',
      req_full_file_content = doc_text document,
      req_file_path = basename (doc_fileName document),
      req_timeout = of_int (or_number (requestTimeout cfg) 60000)\<rparr>"

definition complexity_failed :: "axios_error \<Rightarrow> notification" where
  "complexity_failed error =
     (if e_code error = Some ''ECONNREFUSED''
      then ErrorMessage ''DevSentinel: Could not connect to backend. Is it running?''
      else if e_code error = Some ''ECONNABORTED''
      then ErrorMessage ''DevSentinel: Complexity analysis timed out.''
      else ErrorMessage (''DevSentinel Complexity Error: '' @ e_message error))"

definition devsentinel_complexity ::
  "(request \<Rightarrow> complexity_data outcome) \<Rightarrow> config \<Rightarrow> TextDocument option \<Rightarrow>
   ext_state \<Rightarrow> ext_state" where
  "devsentinel_complexity post cfg editor st =
     (case editor of
        None \<Rightarrow> notify (ErrorMessage ''No active editor found.'') st
      | Some document \<Rightarrow>
          (case post (complexity_request cfg document) of
             Success data \<Rightarrow>
               (let existing = get_diagnostics st (doc_uri document);
                    kept = filter (\<lambda>d. \<not> str_includes (d_message d) ''[COMPLEXITY]'') existing;
                    complexFunctions = filter fn_is_complex (c_functions data)
                in case array_map (try_complexity_diagnostic (c_threshold data))
                          complexFunctions of
                     Inl error \<Rightarrow> notify (complexity_failed error) st
                   | Inr newDiags \<Rightarrow>
                       notify
                         (if length complexFunctions = 0
                          then InformationMessage
                            (''DevSentinel: All ''
                              @ number_to_string (int (length (c_functions data)))
                              @ '' function(s) within threshold.'')
                          else WarningMessage
                            (''DevSentinel: ''
                              @ number_to_string (int (length complexFunctions)) @ '' of ''
                              @ number_to_string (int (length (c_functions data)))
                              @ '' function(s) exceed complexity threshold.''))
                         (set_diagnostics (doc_uri document) (kept @ newDiags) st))
           | Failure error \<Rightarrow> notify (complexity_failed error) st))"

subsection \<open>Roast\<close>

definition roast_request :: "config \<Rightarrow> TextDocument \<Rightarrow> request" where
  "roast_request cfg document =
     \<lparr>req_url = getBackendUrl cfg @ ''/roast'',
      req_full_file_content = doc_text document,
      req_file_path = basename (doc_fileName document),
      req_timeout = of_int (or_number (requestTimeout cfg) 60000)\<rparr>"

text \<open>
  The roast is shown in a panel of its own, which is not part of the state modelled
  here; the command changes that state only by the notification of a failure.
\<close>

definition devsentinel_roast ::
  "(request \<Rightarrow> string outcome) \<Rightarrow> config \<Rightarrow> TextDocument option \<Rightarrow>
   ext_state \<Rightarrow> ext_state" where
  "devsentinel_roast post cfg editor st =
     (case editor of
        None \<Rightarrow> notify (ErrorMessage ''No active editor found to roast.'') st
      | Some document \<Rightarrow>
          (case post (roast_request cfg document) of
             Success r \<Rightarrow> st
           | Failure error \<Rightarrow> notify (ErrorMessage (''Roast Failed: '' @ e_message error)) st))"

section \<open>Quick fixes\<close>

text \<open>
  A \<^verbatim>\<open>vscode.CodeAction\<close>; its \<^verbatim>\<open>edit\<close>, when there is one, is a single
  replacement: the document, the range replaced and the new text.
\<close>

record CodeAction =
  a_title :: string
  a_edit :: "(string \<times> Range \<times> string) option"
  a_diagnostics :: "Diagnostic list"
  a_isPreferred :: bool

definition createFix :: "TextDocument \<Rightarrow> Diagnostic \<Rightarrow> CodeAction" where
  "createFix document diagnostic =
     \<lparr>a_title = ''Apply Fix: '' @ d_message diagnostic,
      a_edit =
        (case d_code diagnostic of
           None \<Rightarrow> None
         | Some fixedCode \<Rightarrow>
             if fixedCode = [] then None
             else Some (doc_uri document, d_range diagnostic, strip_trailing_newlines fixedCode)),
      a_diagnostics = [diagnostic],
      a_isPreferred = True\<rparr>"

definition provideCodeActions :: "TextDocument \<Rightarrow> Diagnostic list \<Rightarrow> CodeAction list" where
  "provideCodeActions document diagnostics =
     map (createFix document) (filter (\<lambda>d. d_source d = Some ''DevSentinel'') diagnostics)"

subsection \<open>The earlier, diff-based entry point\<close>

text \<open>
  \<^verbatim>\<open>extension/src/extension.ts\<close> holds an earlier version of the review command and
  of the quick fix, which the current entry point supersedes. Its loop builds the
  range in the same way; for a comment whose line number is at least 1 its diagnostic
  is the one below, always a warning. Its fix appends a line feed to the stored text
  instead of stripping one.
\<close>

definition legacy_review_diagnostic :: "review_comment \<Rightarrow> Diagnostic" where
  "legacy_review_diagnostic review =
     (let lineIndex = line_number review - 1 in
      \<lparr>d_range = line_range lineIndex,
       d_message = ''DevSentinel: '' @ suggestion review,
       d_severity = Warning,
       d_source = Some ''DevSentinel'',
       d_code = fixed_code review\<rparr>)"

definition createFixScan :: "TextDocument \<Rightarrow> Diagnostic \<Rightarrow> CodeAction" where
  "createFixScan document diagnostic =
     \<lparr>a_title = ''Apply Fix: '' @ d_message diagnostic,
      a_edit =
        (case d_code diagnostic of
           None \<Rightarrow> None
         | Some fixedCode \<Rightarrow>
             if fixedCode = [] then None
             else Some (doc_uri document, d_range diagnostic, fixedCode @ [CHR 0x0A])),
      a_diagnostics = [diagnostic],
      a_isPreferred = True\<rparr>"

subsection \<open>The editor applying an edit\<close>

text \<open>
  What the editor does with a replacement, on a document given as its lines without
  their terminators (a document has at least one line). This is the behaviour of the
  editor, not code of the extension. The editor moves a position beyond the last line
  to the end of the last line and a character beyond the end of a line to the end of
  that line, and the new text is cut into lines at every line break it contains.
\<close>

fun split_lines :: "string \<Rightarrow> string list" where
  "split_lines [] = [[]]"
| "split_lines [c] = (if is_newline c then [[], []] else [[c]])"
| "split_lines (c # d # cs) =
     (if c = CHR 0x0D \<and> d = CHR 0x0A then [] # split_lines cs
      else if is_newline c then [] # split_lines (d # cs)
      else (case split_lines (d # cs) of [] \<Rightarrow> [[c]] | l # ls \<Rightarrow> (c # l) # ls))"

definition validate_position :: "string list \<Rightarrow> int \<Rightarrow> nat \<Rightarrow> nat \<times> nat" where
  "validate_position lines l c =
     (if l < 0 then (0, 0)
      else if length lines \<le> nat l then (length lines - 1, length (last lines))
      else (nat l, min c (length (lines ! nat l))))"

definition apply_replace :: "string list \<Rightarrow> Range \<Rightarrow> string \<Rightarrow> string list" where
  "apply_replace lines r newText =
     (let ls = (if lines = [] then [[]] else lines);
          (sl, sc) = validate_position ls (start_line r) (start_character r);
          (el, ec) = validate_position ls (end_line r) (end_character r)
      in take sl ls @ split_lines (take sc (ls ! sl) @ newText @ drop ec (ls ! el))
           @ drop (Suc el) ls)"

definition apply_action :: "string list \<Rightarrow> CodeAction \<Rightarrow> string list option" where
  "apply_action lines action =
     (case a_edit action of
        None \<Rightarrow> None
      | Some (u, r, newText) \<Rightarrow> Some (apply_replace lines r newText))"

section \<open>Backends and inputs used in the examples\<close>

definition backend_returning :: "'a \<Rightarrow> request \<Rightarrow> 'a outcome" where
  "backend_returning x req = Success x"

definition backend_failing :: "axios_error \<Rightarrow> request \<Rightarrow> 'a outcome" where
  "backend_failing e req = Failure e"

definition initial_state :: ext_state where
  "initial_state = \<lparr>diagnosticCollection = Map.empty, shown = []\<rparr>"

definition example_document :: TextDocument where
  "example_document =
     \<lparr>doc_uri = ''file:///work/app.js'', doc_fileName = ''/work/app.js'',
      doc_text = ''let a = 1; ...''\<rparr>"

definition example_config :: config where
  "example_config = \<lparr>backendUrl = None, requestTimeout = Some 300000\<rparr>"

definition zero_timeout_config :: config where
  "zero_timeout_config = \<lparr>backendUrl = None, requestTimeout = Some 0\<rparr>"

definition avoid_eval :: review_comment where
  "avoid_eval =
     \<lparr>line_number = 5, severity = Some ''error'', suggestion = ''avoid eval'',
      fixed_code = Some ''safeEval(x)''\<rparr>"

definition tagged_suggestion :: review_comment where
  "tagged_suggestion =
     \<lparr>line_number = 2, severity = None, suggestion = ''see the [SECURITY] checklist'',
      fixed_code = None\<rparr>"

definition newline_only_fix :: review_comment where
  "newline_only_fix =
     \<lparr>line_number = 3, severity = None, suggestion = ''drop this line'',
      fixed_code = Some [CHR 0x0A]\<rparr>"

definition foo :: function_info where
  "foo = \<lparr>fn_name = ''foo'', fn_line_number = 3, fn_complexity = 15, fn_is_complex = True\<rparr>"

definition bar :: function_info where
  "bar = \<lparr>fn_name = ''bar'', fn_line_number = 9, fn_complexity = 3, fn_is_complex = False\<rparr>"

definition foo_bar_data :: complexity_data where
  "foo_bar_data = \<lparr>c_functions = [foo, bar], c_threshold = 10\<rparr>"

definition line_zero :: review_comment where
  "line_zero =
     \<lparr>line_number = 0, severity = None, suggestion = ''file-level remark'',
      fixed_code = None\<rparr>"

definition timeout_error :: axios_error where
  "timeout_error =
     \<lparr>e_code = Some ''ECONNABORTED'', e_message = ''timeout of 300000ms exceeded'',
      e_name = ''AxiosError''\<rparr>"

definition stale_state :: ext_state where
  "stale_state =
     set_diagnostics (doc_uri example_document)
       [security_diagnostic avoid_eval, complexity_diagnostic 10 foo, review_diagnostic avoid_eval]
       initial_state"

definition no_functions_data :: complexity_data where
  "no_functions_data = \<lparr>c_functions = [], c_threshold = 10\<rparr>"

section \<open>Basic facts\<close>

lemma take_length_eq_iff: "take (length sub) s = sub \<longleftrightarrow> (\<exists>post. s = sub @ post)"
  by (metis append_eq_conv_conj append_take_drop_id)

lemma str_includes_iff: "str_includes s sub \<longleftrightarrow> (\<exists>pre post. s = pre @ sub @ post)"
proof (induction s)
  case Nil
  then show ?case by simp
next
  case (Cons c cs)
  show ?case
  proof
    assume "str_includes (c # cs) sub"
    then consider "take (length sub) (c # cs) = sub" | "str_includes cs sub" by auto
    then show "\<exists>pre post. c # cs = pre @ sub @ post"
    proof cases
      case 1
      then obtain post where "c # cs = sub @ post" using take_length_eq_iff by metis
      then have "c # cs = [] @ sub @ post" by simp
      then show ?thesis by blast
    next
      case 2
      then obtain pre post where "cs = pre @ sub @ post" using Cons.IH by blast
      then have "c # cs = (c # pre) @ sub @ post" by simp
      then show ?thesis by blast
    qed
  next
    assume "\<exists>pre post. c # cs = pre @ sub @ post"
    then obtain pre post where eq: "c # cs = pre @ sub @ post" by blast
    show "str_includes (c # cs) sub"
    proof (cases pre)
      case Nil
      then have "take (length sub) (c # cs) = sub" using eq take_length_eq_iff by (metis append_Nil)
      then show ?thesis by simp
    next
      case (Cons p pre')
      then have "cs = pre' @ sub @ post" using eq by simp
      then have "str_includes cs sub" using Cons.IH by blast
      then show ?thesis by simp
    qed
  qed
qed

lemma str_includes_middle: "str_includes (pre @ sub @ post) sub"
  using str_includes_iff by blast

lemma get_set_diagnostics: "get_diagnostics (set_diagnostics u ds st) u = ds"
  by (simp add: get_diagnostics_def set_diagnostics_def)

lemma get_notify: "get_diagnostics (notify n st) u = get_diagnostics st u"
  by (simp add: get_diagnostics_def notify_def)

lemma ledger_notify: "diagnosticCollection (notify n st) = diagnosticCollection st"
  by (simp add: notify_def)

lemma shown_notify: "shown (notify n st) = shown st @ [n]"
  by (simp add: notify_def)

lemma shown_set_diagnostics: "shown (set_diagnostics u ds st) = shown st"
  by (simp add: set_diagnostics_def)

lemma security_tagged: "str_includes (d_message (security_diagnostic r)) ''[SECURITY]''"
  by (simp add: security_diagnostic_def)

lemma complexity_tagged: "str_includes (d_message (complexity_diagnostic t f)) ''[COMPLEXITY]''"
  by (simp add: complexity_diagnostic_def)

lemma max_value_ge: "2 ^ 53 \<le> MAX_VALUE"
  by (simp add: MAX_VALUE_def)

lemma backend_returning_eq: "backend_returning x req = Success x"
  by (simp add: backend_returning_def)

lemma backend_failing_eq: "backend_failing e req = Failure e"
  by (simp add: backend_failing_def)

lemma number_to_string_0: "number_to_string 0 = ''0''"
  by (simp add: number_to_string_def decimal_digits.simps digit_char_def)

lemma line_range_start: "start_line (line_range l) = l" "end_line (line_range l) = l"
  "start_character (line_range l) = 0" "end_character (line_range l) = MAX_VALUE"
  by (simp_all add: line_range_def)

lemma complexity_message_names:
  "str_includes (d_message (complexity_diagnostic threshold f)) (fn_name f)"
  "str_includes (d_message (complexity_diagnostic threshold f)) (number_to_string (fn_complexity f))"
  "str_includes (d_message (complexity_diagnostic threshold f)) (number_to_string threshold)"
proof -
  let ?m = "d_message (complexity_diagnostic threshold f)"
  have "?m = (''[COMPLEXITY] DevSentinel: Function '' @ [CHR 0x27]) @ fn_name f
               @ ([CHR 0x27] @ '' has cyclomatic complexity of ''
                  @ number_to_string (fn_complexity f) @ '' (threshold: ''
                  @ number_to_string threshold @ '')'')"
    by (simp add: complexity_diagnostic_def)
  then show "str_includes ?m (fn_name f)"
    using str_includes_middle by metis
  have "?m = (''[COMPLEXITY] DevSentinel: Function '' @ [CHR 0x27] @ fn_name f @ [CHR 0x27]
                @ '' has cyclomatic complexity of '')
               @ number_to_string (fn_complexity f)
               @ ('' (threshold: '' @ number_to_string threshold @ '')'')"
    by (simp add: complexity_diagnostic_def)
  then show "str_includes ?m (number_to_string (fn_complexity f))"
    using str_includes_middle by metis
  have "?m = (''[COMPLEXITY] DevSentinel: Function '' @ [CHR 0x27] @ fn_name f @ [CHR 0x27]
                @ '' has cyclomatic complexity of '' @ number_to_string (fn_complexity f)
                @ '' (threshold: '')
               @ number_to_string threshold @ '')''"
    by (simp add: complexity_diagnostic_def)
  then show "str_includes ?m (number_to_string threshold)"
    using str_includes_middle by metis
qed

lemma number_to_string_examples: "number_to_string 15 = ''15''" "number_to_string 10 = ''10''"
  by (simp_all add: number_to_string_def decimal_digits.simps digit_char_def)

lemma new_Range_line:
  "new_Range l 0 l MAX_VALUE = (if l < 0 then Inl illegal_line else Inr (line_range l))"
  using max_value_ge by (simp add: new_Range_def line_range_def)

lemma try_review_diagnostic_eq:
  "try_review_diagnostic review
     = (if 1 \<le> line_number review then Inr (review_diagnostic review) else Inl illegal_line)"
  by (simp add: try_review_diagnostic_def review_diagnostic_def new_Range_line)

lemma try_security_diagnostic_eq:
  "try_security_diagnostic review
     = (if 1 \<le> line_number review then Inr (security_diagnostic review) else Inl illegal_line)"
  by (simp add: try_security_diagnostic_def security_diagnostic_def new_Range_line)

lemma try_complexity_diagnostic_eq:
  "try_complexity_diagnostic threshold f
     = (if 1 \<le> fn_line_number f then Inr (complexity_diagnostic threshold f)
        else Inl illegal_line)"
  by (simp add: try_complexity_diagnostic_def complexity_diagnostic_def new_Range_line)

lemma review_loop_eq:
  "review_loop reviews acc
     = (if \<forall>r \<in> set reviews. 1 \<le> line_number r
        then Inr (acc @ map review_diagnostic reviews) else Inl illegal_line)"
  by (induction reviews arbitrary: acc) (simp_all add: try_review_diagnostic_eq)

lemma array_map_security_eq:
  "array_map try_security_diagnostic reviews
     = (if \<forall>r \<in> set reviews. 1 \<le> line_number r
        then Inr (map security_diagnostic reviews) else Inl illegal_line)"
  by (induction reviews) (simp_all add: try_security_diagnostic_eq)

lemma array_map_complexity_eq:
  "array_map (try_complexity_diagnostic threshold) fs
     = (if \<forall>f \<in> set fs. 1 \<le> fn_line_number f
        then Inr (map (complexity_diagnostic threshold) fs) else Inl illegal_line)"
  by (induction fs) (simp_all add: try_complexity_diagnostic_eq)

lemma review_ledger:
  assumes "post (review_request cfg document) = Success reviews"
  shows "get_diagnostics (devsentinel_review post cfg (Some document) st) (doc_uri document)
           = (if \<forall>r \<in> set reviews. 1 \<le> line_number r then map review_diagnostic reviews
              else get_diagnostics st (doc_uri document))"
  using assms
  by (simp add: devsentinel_review_def review_loop_eq get_notify get_set_diagnostics)

lemma securityScan_ledger:
  assumes "post (securityScan_request cfg document) = Success reviews"
  shows "get_diagnostics (devsentinel_securityScan post cfg (Some document) st) (doc_uri document)
           = (if \<forall>r \<in> set reviews. 1 \<le> line_number r
              then filter (\<lambda>d. \<not> str_includes (d_message d) ''[SECURITY]'')
                     (get_diagnostics st (doc_uri document))
                   @ map security_diagnostic reviews
              else get_diagnostics st (doc_uri document))"
  using assms
  by (simp add: devsentinel_securityScan_def Let_def array_map_security_eq get_notify
      get_set_diagnostics)

lemma complexity_ledger:
  assumes "post (complexity_request cfg document) = Success data"
  shows "get_diagnostics (devsentinel_complexity post cfg (Some document) st) (doc_uri document)
           = (if \<forall>f \<in> set (c_functions data). fn_is_complex f \<longrightarrow> 1 \<le> fn_line_number f
              then filter (\<lambda>d. \<not> str_includes (d_message d) ''[COMPLEXITY]'')
                     (get_diagnostics st (doc_uri document))
                   @ map (complexity_diagnostic (c_threshold data))
                       (filter fn_is_complex (c_functions data))
              else get_diagnostics st (doc_uri document))"
  using assms
  by (auto simp add: devsentinel_complexity_def Let_def array_map_complexity_eq get_notify
      get_set_diagnostics)

lemma review_success:
  assumes "post (review_request cfg document) = Success reviews"
      and "\<forall>r \<in> set reviews. 1 \<le> line_number r"
  shows "get_diagnostics (devsentinel_review post cfg (Some document) st) (doc_uri document)
           = map review_diagnostic reviews"
  using assms by (simp add: review_ledger)

lemma securityScan_success:
  assumes "post (securityScan_request cfg document) = Success reviews"
      and "\<forall>r \<in> set reviews. 1 \<le> line_number r"
  shows "get_diagnostics (devsentinel_securityScan post cfg (Some document) st) (doc_uri document)
           = filter (\<lambda>d. \<not> str_includes (d_message d) ''[SECURITY]'')
               (get_diagnostics st (doc_uri document))
             @ map security_diagnostic reviews"
  using assms by (simp add: securityScan_ledger)

lemma complexity_success:
  assumes "post (complexity_request cfg document) = Success data"
      and "\<forall>f \<in> set (c_functions data). fn_is_complex f \<longrightarrow> 1 \<le> fn_line_number f"
  shows "get_diagnostics (devsentinel_complexity post cfg (Some document) st) (doc_uri document)
           = filter (\<lambda>d. \<not> str_includes (d_message d) ''[COMPLEXITY]'')
               (get_diagnostics st (doc_uri document))
             @ map (complexity_diagnostic (c_threshold data))
                 (filter fn_is_complex (c_functions data))"
  using assms by (simp add: complexity_ledger)

text \<open>
  A line number below 1 in the response: the command ends in its \<^verbatim>\<open>catch\<close> block,
  the collection is as before and the error of the editor API is shown.
\<close>

lemma review_line_below_1:
  assumes "post (review_request cfg document) = Success reviews"
      and "r \<in> set reviews" and "line_number r < 1"
  shows "devsentinel_review post cfg (Some document) st
           = notify (ErrorMessage
               ''DevSentinel Error: Illegal argument: line must be non-negative'') st"
proof -
  have "\<not> (\<forall>r \<in> set reviews. 1 \<le> line_number r)"
    using assms(2,3) by force
  then have "review_loop reviews [] = Inl illegal_line"
    by (simp add: review_loop_eq)
  then show ?thesis
    using assms(1) by (simp add: devsentinel_review_def review_failed_def illegal_line_def)
qed

lemma securityScan_line_below_1:
  assumes "post (securityScan_request cfg document) = Success reviews"
      and "r \<in> set reviews" and "line_number r < 1"
  shows "devsentinel_securityScan post cfg (Some document) st
           = notify (ErrorMessage
               ''DevSentinel Security Scan Error: Illegal argument: line must be non-negative'')
               st"
proof -
  have "\<not> (\<forall>r \<in> set reviews. 1 \<le> line_number r)"
    using assms(2,3) by force
  then have "array_map try_security_diagnostic reviews = Inl illegal_line"
    by (simp add: array_map_security_eq)
  then show ?thesis
    using assms(1)
    by (simp add: devsentinel_securityScan_def securityScan_failed_def illegal_line_def)
qed

lemma complexity_line_below_1:
  assumes "post (complexity_request cfg document) = Success data"
      and "f \<in> set (c_functions data)" and "fn_is_complex f" and "fn_line_number f < 1"
  shows "devsentinel_complexity post cfg (Some document) st
           = notify (ErrorMessage
               ''DevSentinel Complexity Error: Illegal argument: line must be non-negative'')
               st"
proof -
  have "\<not> (\<forall>f \<in> set (filter fn_is_complex (c_functions data)). 1 \<le> fn_line_number f)"
    using assms(2,3,4) by force
  then have "array_map (try_complexity_diagnostic (c_threshold data))
               (filter fn_is_complex (c_functions data)) = Inl illegal_line"
    by (simp only: array_map_complexity_eq if_False)
  then show ?thesis
    using assms(1)
    by (simp add: devsentinel_complexity_def complexity_failed_def illegal_line_def)
qed

lemma filter_security_new:
  "filter (\<lambda>d. \<not> str_includes (d_message d) ''[SECURITY]'') (map security_diagnostic reviews) = []"
  by (induction reviews) (simp_all add: security_tagged)

lemma filter_complexity_new:
  "filter (\<lambda>d. \<not> str_includes (d_message d) ''[COMPLEXITY]'')
     (map (complexity_diagnostic t) fs) = []"
  by (induction fs) (simp_all add: complexity_tagged)

lemma example_line_numbers:
  "line_number avoid_eval = 5" "line_number tagged_suggestion = 2"
  "line_number newline_only_fix = 3" "line_number line_zero = 0"
  by (simp_all add: avoid_eval_def tagged_suggestion_def newline_only_fix_def line_zero_def)

lemma foo_bar_fields:
  "c_functions foo_bar_data = [foo, bar]" "c_threshold foo_bar_data = 10"
  "fn_is_complex foo" "\<not> fn_is_complex bar" "fn_line_number foo = 3" "fn_complexity foo = 15"
  by (simp_all add: foo_bar_data_def foo_def bar_def)

text \<open>
  An instance: a review response whose second comment has line number 0. The first
  comment is not stored either.
\<close>

lemma review_line_zero_example:
  "devsentinel_review (backend_returning [avoid_eval, line_zero]) example_config
     (Some example_document) stale_state
   = notify (ErrorMessage ''DevSentinel Error: Illegal argument: line must be non-negative'')
       stale_state"
proof -
  have "line_zero \<in> set [avoid_eval, line_zero]" and "line_number line_zero < 1"
    by (simp_all add: example_line_numbers)
  then show ?thesis
    using review_line_below_1 [where post = "backend_returning [avoid_eval, line_zero]"
        and reviews = "[avoid_eval, line_zero]" and r = line_zero, OF backend_returning_eq]
    by blast
qed

text \<open>
  The quick fix of the earlier entry point, and the editor applying a replacement of a
  whole line that lies in the document.
\<close>

lemma createFixScan_edit:
  "a_edit (createFixScan document diagnostic)
     = (case d_code diagnostic of
          None \<Rightarrow> None
        | Some fixedCode \<Rightarrow>
            if fixedCode = [] then None
            else Some (doc_uri document, d_range diagnostic, fixedCode @ [CHR 0x0A]))"
  by (simp add: createFixScan_def)

lemma apply_replace_whole_line:
  assumes "0 \<le> lineIndex" and "nat lineIndex < length lines"
      and "length (lines ! nat lineIndex) \<le> MAX_VALUE"
  shows "apply_replace lines (line_range lineIndex) newText
           = take (nat lineIndex) lines @ split_lines newText @ drop (Suc (nat lineIndex)) lines"
proof -
  have "lines \<noteq> []"
    using assms(2) by auto
  then show ?thesis
    using assms
    by (simp add: apply_replace_def validate_position_def line_range_def min_def)
qed

section \<open>Independence of the categories\<close>

text \<open>
  Claim C1, amended. A security scan leaves every diagnostic of the document whose
  message does not contain \<^verbatim>\<open>[SECURITY]\<close> as it was, in content and in order, and
  a complexity run leaves every diagnostic whose message does not contain
  \<^verbatim>\<open>[COMPLEXITY]\<close> as it was.
\<close>

theorem C1_untagged_preserved:
  assumes "spost (securityScan_request cfg document) = Success reviews"
      and "cpost (complexity_request cfg document) = Success data"
  shows "filter (\<lambda>d. \<not> str_includes (d_message d) ''[SECURITY]'')
           (get_diagnostics (devsentinel_securityScan spost cfg (Some document) st)
              (doc_uri document))
         = filter (\<lambda>d. \<not> str_includes (d_message d) ''[SECURITY]'')
             (get_diagnostics st (doc_uri document))
       \<and> filter (\<lambda>d. \<not> str_includes (d_message d) ''[COMPLEXITY]'')
           (get_diagnostics (devsentinel_complexity cpost cfg (Some document) st)
              (doc_uri document))
         = filter (\<lambda>d. \<not> str_includes (d_message d) ''[COMPLEXITY]'')
             (get_diagnostics st (doc_uri document))"
  using assms
  by (simp add: securityScan_ledger complexity_ledger filter_security_new
      filter_complexity_new)

text \<open>
  An instance: after a review that reported one comment, a security scan and a
  complexity run each leave the diagnostic of the review in place.
\<close>

theorem C1_untagged_preserved_witness:
  "filter (\<lambda>d. \<not> str_includes (d_message d) ''[SECURITY]'')
     (get_diagnostics
        (devsentinel_securityScan (backend_returning [avoid_eval]) example_config
           (Some example_document)
           (devsentinel_review (backend_returning [avoid_eval]) example_config
              (Some example_document) initial_state))
        (doc_uri example_document))
   = [review_diagnostic avoid_eval]
   \<and> filter (\<lambda>d. \<not> str_includes (d_message d) ''[COMPLEXITY]'')
     (get_diagnostics
        (devsentinel_complexity (backend_returning foo_bar_data) example_config
           (Some example_document)
           (devsentinel_review (backend_returning [avoid_eval]) example_config
              (Some example_document) initial_state))
        (doc_uri example_document))
   = [review_diagnostic avoid_eval]"
proof -
  have h1: "backend_returning [avoid_eval] (securityScan_request example_config example_document)
              = Success [avoid_eval]"
    by (rule backend_returning_eq)
  have h2: "backend_returning foo_bar_data (complexity_request example_config example_document)
              = Success foo_bar_data"
    by (rule backend_returning_eq)
  have before: "get_diagnostics
                  (devsentinel_review (backend_returning [avoid_eval]) example_config
                     (Some example_document) initial_state)
                  (doc_uri example_document) = [review_diagnostic avoid_eval]"
    by (simp add: review_ledger backend_returning_eq example_line_numbers)
  have plain: "\<not> str_includes (d_message (review_diagnostic avoid_eval)) ''[SECURITY]''"
              "\<not> str_includes (d_message (review_diagnostic avoid_eval)) ''[COMPLEXITY]''"
    by (simp_all add: review_diagnostic_def avoid_eval_def)
  show ?thesis
    using C1_untagged_preserved [where spost = "backend_returning [avoid_eval]"
        and cpost = "backend_returning foo_bar_data" and cfg = example_config
        and document = example_document and reviews = "[avoid_eval]" and data = foo_bar_data
        and st = "devsentinel_review (backend_returning [avoid_eval]) example_config
              (Some example_document) initial_state", OF h1 h2]
    by (simp add: before plain)
qed

text \<open>
  The claim as it is written fails for the review command, which stores its own
  diagnostics in place of all diagnostics of the document: a security diagnostic
  present before a review is gone after it. It also fails for a diagnostic of a review
  whose suggestion contains the text \<^verbatim>\<open>[SECURITY]\<close>: a security scan removes it.
\<close>

theorem C1_counterexample:
  "get_diagnostics
     (devsentinel_securityScan (backend_returning [avoid_eval]) example_config
        (Some example_document) initial_state)
     (doc_uri example_document) = [security_diagnostic avoid_eval]
   \<and> get_diagnostics
     (devsentinel_review (backend_returning []) example_config (Some example_document)
        (devsentinel_securityScan (backend_returning [avoid_eval]) example_config
           (Some example_document) initial_state))
     (doc_uri example_document) = []
   \<and> get_diagnostics
     (devsentinel_review (backend_returning [tagged_suggestion]) example_config
        (Some example_document) initial_state)
     (doc_uri example_document) = [review_diagnostic tagged_suggestion]
   \<and> get_diagnostics
     (devsentinel_securityScan (backend_returning []) example_config (Some example_document)
        (devsentinel_review (backend_returning [tagged_suggestion]) example_config
           (Some example_document) initial_state))
     (doc_uri example_document) = []"
proof -
  have empty: "get_diagnostics initial_state (doc_uri example_document) = []"
    by (simp add: get_diagnostics_def initial_state_def)
  have tagged: "str_includes (d_message (review_diagnostic tagged_suggestion)) ''[SECURITY]''"
    by (simp add: review_diagnostic_def tagged_suggestion_def)
  show ?thesis
    by (simp add: review_ledger securityScan_ledger backend_returning_eq empty tagged
        example_line_numbers)
qed

section \<open>Failed requests\<close>

text \<open>
  Claim C2. When the backend call of a command fails, whether the service is
  unreachable, the request times out or any other error is thrown, the diagnostic
  collection after the command is the one before it, for every document.
\<close>

theorem C2_failure_leaves_ledger:
  assumes "rpost (review_request cfg document) = Failure error"
      and "spost (securityScan_request cfg document) = Failure error"
      and "cpost (complexity_request cfg document) = Failure error"
      and "tpost (roast_request cfg document) = Failure error"
  shows "diagnosticCollection (devsentinel_review rpost cfg (Some document) st)
           = diagnosticCollection st
       \<and> diagnosticCollection (devsentinel_securityScan spost cfg (Some document) st)
           = diagnosticCollection st
       \<and> diagnosticCollection (devsentinel_complexity cpost cfg (Some document) st)
           = diagnosticCollection st
       \<and> diagnosticCollection (devsentinel_roast tpost cfg (Some document) st)
           = diagnosticCollection st"
  using assms
  by (simp add: devsentinel_review_def devsentinel_securityScan_def devsentinel_complexity_def
      devsentinel_roast_def ledger_notify)

text \<open>
  An instance: a timeout, with a security diagnostic in the collection.
\<close>

theorem C2_failure_leaves_ledger_witness:
  "diagnosticCollection
     (devsentinel_review (backend_failing timeout_error) example_config (Some example_document)
        (set_diagnostics (doc_uri example_document) [security_diagnostic avoid_eval]
           initial_state))
   = [doc_uri example_document \<mapsto> [security_diagnostic avoid_eval]]
   \<and> diagnosticCollection
     (devsentinel_securityScan (backend_failing timeout_error) example_config
        (Some example_document)
        (set_diagnostics (doc_uri example_document) [security_diagnostic avoid_eval]
           initial_state))
   = [doc_uri example_document \<mapsto> [security_diagnostic avoid_eval]]
   \<and> diagnosticCollection
     (devsentinel_complexity (backend_failing timeout_error) example_config
        (Some example_document)
        (set_diagnostics (doc_uri example_document) [security_diagnostic avoid_eval]
           initial_state))
   = [doc_uri example_document \<mapsto> [security_diagnostic avoid_eval]]
   \<and> diagnosticCollection
     (devsentinel_roast (backend_failing timeout_error) example_config
        (Some example_document)
        (set_diagnostics (doc_uri example_document) [security_diagnostic avoid_eval]
           initial_state))
   = [doc_uri example_document \<mapsto> [security_diagnostic avoid_eval]]"
proof -
  have before: "diagnosticCollection
      (set_diagnostics (doc_uri example_document) [security_diagnostic avoid_eval] initial_state)
    = [doc_uri example_document \<mapsto> [security_diagnostic avoid_eval]]"
    by (simp add: set_diagnostics_def initial_state_def)
  show ?thesis
    using C2_failure_leaves_ledger [where rpost = "backend_failing timeout_error"
        and spost = "backend_failing timeout_error" and cpost = "backend_failing timeout_error"
        and tpost = "backend_failing timeout_error" and error = timeout_error
        and cfg = example_config and document = example_document
        and st = "set_diagnostics (doc_uri example_document) [security_diagnostic avoid_eval]
           initial_state",
        OF backend_failing_eq backend_failing_eq backend_failing_eq backend_failing_eq]
    by (simp add: before)
qed

section \<open>Empty results\<close>

text \<open>
  Claim C3. A successful request whose result list is empty leaves no diagnostic of
  its category for the document: none at all after a review, none whose message
  contains \<^verbatim>\<open>[SECURITY]\<close> after a security scan (so no diagnostic a security scan
  ever built), none whose message contains \<^verbatim>\<open>[COMPLEXITY]\<close> after a complexity
  run. The command reports this with an information message, not with an error.
\<close>

theorem C3_empty_result_clears:
  assumes "rpost (review_request cfg document) = Success []"
      and "spost (securityScan_request cfg document) = Success []"
      and "cpost (complexity_request cfg document) = Success data"
      and "c_functions data = []"
  shows "get_diagnostics (devsentinel_review rpost cfg (Some document) st) (doc_uri document) = []
       \<and> shown (devsentinel_review rpost cfg (Some document) st)
           = shown st @ [InformationMessage ''DevSentinel: Code looks good! No issues found.'']
       \<and> filter (\<lambda>d. str_includes (d_message d) ''[SECURITY]'')
           (get_diagnostics (devsentinel_securityScan spost cfg (Some document) st)
              (doc_uri document)) = []
       \<and> security_diagnostic r
           \<notin> set (get_diagnostics (devsentinel_securityScan spost cfg (Some document) st)
                   (doc_uri document))
       \<and> shown (devsentinel_securityScan spost cfg (Some document) st)
           = shown st @ [InformationMessage ''DevSentinel: No security issues found!'']
       \<and> filter (\<lambda>d. str_includes (d_message d) ''[COMPLEXITY]'')
           (get_diagnostics (devsentinel_complexity cpost cfg (Some document) st)
              (doc_uri document)) = []
       \<and> complexity_diagnostic t f
           \<notin> set (get_diagnostics (devsentinel_complexity cpost cfg (Some document) st)
                   (doc_uri document))
       \<and> shown (devsentinel_complexity cpost cfg (Some document) st)
           = shown st @ [InformationMessage ''DevSentinel: All 0 function(s) within threshold.'']"
proof -
  have r1: "get_diagnostics (devsentinel_review rpost cfg (Some document) st) (doc_uri document) = []"
    using assms(1) by (simp add: review_ledger)
  have r2: "shown (devsentinel_review rpost cfg (Some document) st)
           = shown st @ [InformationMessage ''DevSentinel: Code looks good! No issues found.'']"
    using assms(1) by (simp add: devsentinel_review_def shown_notify shown_set_diagnostics)
  have s0: "get_diagnostics (devsentinel_securityScan spost cfg (Some document) st)
              (doc_uri document)
            = filter (\<lambda>d. \<not> str_includes (d_message d) ''[SECURITY]'')
                (get_diagnostics st (doc_uri document))"
    using assms(2) by (simp add: securityScan_ledger)
  have s1: "filter (\<lambda>d. str_includes (d_message d) ''[SECURITY]'')
           (get_diagnostics (devsentinel_securityScan spost cfg (Some document) st)
              (doc_uri document)) = []"
    by (simp add: s0)
  have s2: "security_diagnostic r
           \<notin> set (get_diagnostics (devsentinel_securityScan spost cfg (Some document) st)
                   (doc_uri document))"
    by (simp add: s0 security_tagged)
  have s3: "shown (devsentinel_securityScan spost cfg (Some document) st)
           = shown st @ [InformationMessage ''DevSentinel: No security issues found!'']"
    using assms(2)
    by (simp add: devsentinel_securityScan_def Let_def shown_notify shown_set_diagnostics)
  have c0: "get_diagnostics (devsentinel_complexity cpost cfg (Some document) st)
              (doc_uri document)
            = filter (\<lambda>d. \<not> str_includes (d_message d) ''[COMPLEXITY]'')
                (get_diagnostics st (doc_uri document))"
    using assms(3,4) by (simp add: complexity_ledger)
  have c1: "filter (\<lambda>d. str_includes (d_message d) ''[COMPLEXITY]'')
           (get_diagnostics (devsentinel_complexity cpost cfg (Some document) st)
              (doc_uri document)) = []"
    by (simp add: c0)
  have c2: "complexity_diagnostic t f
           \<notin> set (get_diagnostics (devsentinel_complexity cpost cfg (Some document) st)
                   (doc_uri document))"
    by (simp add: c0 complexity_tagged)
  have c3: "shown (devsentinel_complexity cpost cfg (Some document) st)
           = shown st @ [InformationMessage ''DevSentinel: All 0 function(s) within threshold.'']"
    using assms(3,4)
    by (simp add: devsentinel_complexity_def Let_def shown_notify shown_set_diagnostics
        number_to_string_0)
  from r1 r2 s1 s2 s3 c1 c2 c3 show ?thesis by blast
qed

text \<open>
  An instance: empty results arrive while the document still has a security, a
  complexity and a review diagnostic from earlier runs.
\<close>

theorem C3_empty_result_clears_witness:
  "get_diagnostics
     (devsentinel_review (backend_returning []) example_config (Some example_document)
        stale_state)
     (doc_uri example_document) = []
   \<and> shown
     (devsentinel_review (backend_returning []) example_config (Some example_document)
        stale_state)
     = [InformationMessage ''DevSentinel: Code looks good! No issues found.'']
   \<and> security_diagnostic avoid_eval
     \<notin> set (get_diagnostics
         (devsentinel_securityScan (backend_returning []) example_config
            (Some example_document) stale_state)
         (doc_uri example_document))
   \<and> shown
     (devsentinel_securityScan (backend_returning []) example_config (Some example_document)
        stale_state)
     = [InformationMessage ''DevSentinel: No security issues found!'']
   \<and> complexity_diagnostic 10 foo
     \<notin> set (get_diagnostics
         (devsentinel_complexity (backend_returning no_functions_data) example_config
            (Some example_document) stale_state)
         (doc_uri example_document))
   \<and> shown
     (devsentinel_complexity (backend_returning no_functions_data) example_config
        (Some example_document) stale_state)
     = [InformationMessage ''DevSentinel: All 0 function(s) within threshold.'']"
proof -
  have h: "c_functions no_functions_data = []"
    by (simp add: no_functions_data_def)
  have quiet: "shown stale_state = []"
    by (simp add: stale_state_def shown_set_diagnostics initial_state_def)
  show ?thesis
    using C3_empty_result_clears [where rpost = "backend_returning []"
        and spost = "backend_returning []" and cpost = "backend_returning no_functions_data"
        and data = no_functions_data and cfg = example_config and document = example_document
        and st = stale_state and r = avoid_eval and t = 10 and f = foo,
        OF backend_returning_eq backend_returning_eq backend_returning_eq h]
    by (simp add: quiet)
qed

section \<open>Line numbers\<close>

text \<open>
  Claim C4. For a review response whose line numbers are line numbers of the wire
  protocol (at least 1, and safe integers), the review stores one diagnostic for each
  comment, in the order of the response. The loop body builds the diagnostic of a
  comment without throwing; the diagnostic is anchored at the line index
  \<open>line_number - 1\<close>, its message contains the suggestion, and its code is the
  \<open>fixed_code\<close> of the comment; the earlier entry point anchors in the same way.
  The quick fix takes the range of the diagnostic as it is stored, so the conversion
  from the 1-based line number happens once.
\<close>

theorem C4_line_number_converted_once:
  assumes "post (review_request cfg document) = Success reviews"
      and "\<forall>r \<in> set reviews. 1 \<le> line_number r \<and> isSafeInteger (line_number r)"
      and "review \<in> set reviews"
  shows "get_diagnostics (devsentinel_review post cfg (Some document) st) (doc_uri document)
           = map review_diagnostic reviews
       \<and> try_review_diagnostic review = Inr (review_diagnostic review)
       \<and> d_range (review_diagnostic review) = line_range (line_number review - 1)
       \<and> start_line (d_range (review_diagnostic review)) = line_number review - 1
       \<and> end_line (d_range (review_diagnostic review)) = line_number review - 1
       \<and> d_message (review_diagnostic review) = ''DevSentinel: '' @ suggestion review
       \<and> str_includes (d_message (review_diagnostic review)) (suggestion review)
       \<and> d_code (review_diagnostic review) = fixed_code review
       \<and> d_range (legacy_review_diagnostic review) = line_range (line_number review - 1)
       \<and> d_code (legacy_review_diagnostic review) = fixed_code review
       \<and> a_edit (createFix document (review_diagnostic review))
           = (case fixed_code review of
                None \<Rightarrow> None
              | Some fixedCode \<Rightarrow>
                  if fixedCode = [] then None
                  else Some (doc_uri document, line_range (line_number review - 1),
                         strip_trailing_newlines fixedCode))"
proof -
  have ledger: "get_diagnostics (devsentinel_review post cfg (Some document) st)
                  (doc_uri document) = map review_diagnostic reviews"
    using assms(1,2) by (simp add: review_success)
  have built: "try_review_diagnostic review = Inr (review_diagnostic review)"
    using assms(2,3) by (simp add: try_review_diagnostic_eq)
  have msg: "str_includes (d_message (review_diagnostic review)) (suggestion review)"
    using str_includes_middle [of "''DevSentinel: ''" "suggestion review" "[]"]
    by (simp add: review_diagnostic_def)
  have fields: "d_range (review_diagnostic review) = line_range (line_number review - 1)"
    "d_message (review_diagnostic review) = ''DevSentinel: '' @ suggestion review"
    "d_code (review_diagnostic review) = fixed_code review"
    "d_range (legacy_review_diagnostic review) = line_range (line_number review - 1)"
    "d_code (legacy_review_diagnostic review) = fixed_code review"
    by (simp_all add: review_diagnostic_def legacy_review_diagnostic_def)
  have edit: "a_edit (createFix document (review_diagnostic review))
           = (case fixed_code review of
                None \<Rightarrow> None
              | Some fixedCode \<Rightarrow>
                  if fixedCode = [] then None
                  else Some (doc_uri document, line_range (line_number review - 1),
                         strip_trailing_newlines fixedCode))"
    by (simp add: createFix_def fields split: option.split)
  from ledger built msg fields edit show ?thesis
    by (simp add: line_range_start)
qed

text \<open>
  An instance: the comment at line 5 with suggestion \<^verbatim>\<open>avoid eval\<close> and fixed code
  \<^verbatim>\<open>safeEval(x)\<close> gives one diagnostic at line index 4.
\<close>

theorem C4_line_number_converted_once_witness:
  "get_diagnostics
     (devsentinel_review (backend_returning [avoid_eval]) example_config
        (Some example_document) initial_state)
     (doc_uri example_document)
   = [\<lparr>d_range = \<lparr>start_line = 4, start_character = 0, end_line = 4,
                   end_character = MAX_VALUE\<rparr>,
       d_message = ''DevSentinel: avoid eval'', d_severity = Error,
       d_source = Some ''DevSentinel'', d_code = Some ''safeEval(x)''\<rparr>]
   \<and> str_includes ''DevSentinel: avoid eval'' ''avoid eval''
   \<and> a_edit (createFix example_document (review_diagnostic avoid_eval))
     = Some (''file:///work/app.js'',
         \<lparr>start_line = 4, start_character = 0, end_line = 4, end_character = MAX_VALUE\<rparr>,
         ''safeEval(x)'')"
proof -
  have d: "review_diagnostic avoid_eval
    = \<lparr>d_range = \<lparr>start_line = 4, start_character = 0, end_line = 4,
                   end_character = MAX_VALUE\<rparr>,
       d_message = ''DevSentinel: avoid eval'', d_severity = Error,
       d_source = Some ''DevSentinel'', d_code = Some ''safeEval(x)''\<rparr>"
    by (simp add: review_diagnostic_def avoid_eval_def line_range_def mapSeverity_def
        or_string_def)
  have strip: "strip_trailing_newlines ''safeEval(x)'' = ''safeEval(x)''"
    by (simp add: strip_trailing_newlines_def is_newline_def)
  have more: "fixed_code avoid_eval = Some ''safeEval(x)''" "line_number avoid_eval = 5"
    "suggestion avoid_eval = ''avoid eval''" "doc_uri example_document = ''file:///work/app.js''"
    by (simp_all add: avoid_eval_def example_document_def)
  have h2: "\<forall>r \<in> set [avoid_eval]. 1 \<le> line_number r \<and> isSafeInteger (line_number r)"
    by (simp add: more isSafeInteger_def)
  have h3: "avoid_eval \<in> set [avoid_eval]"
    by simp
  show ?thesis
    using C4_line_number_converted_once [where post = "backend_returning [avoid_eval]"
        and cfg = example_config and document = example_document and reviews = "[avoid_eval]"
        and st = initial_state and review = avoid_eval, OF backend_returning_eq h2 h3]
    by (simp add: d strip more line_range_def)
qed

section \<open>Quick fixes and the stored replacement\<close>

text \<open>
  Claim C5, amended. The quick fix carries no edit exactly when the stored replacement
  is absent or is the empty string as stored; the test comes before the trailing line
  breaks are stripped. Without an edit nothing is applied to the document.
\<close>

theorem C5_edit_iff_stored_nonempty:
  "(a_edit (createFix document diagnostic) = None)
     = (d_code diagnostic = None \<or> d_code diagnostic = Some [])
   \<and> apply_action lines (createFix document (diagnostic\<lparr>d_code := None\<rparr>)) = None
   \<and> apply_action lines (createFix document (diagnostic\<lparr>d_code := Some []\<rparr>)) = None"
  by (simp add: createFix_def apply_action_def split: option.split)

text \<open>
  The claim as it is written fails for a replacement that consists of a line feed: it
  is empty once the line feed is stripped, and the quick fix still carries an edit,
  which replaces the anchored line by the empty text.
\<close>

theorem C5_counterexample:
  "strip_trailing_newlines [CHR 0x0A] = []
   \<and> d_code (review_diagnostic newline_only_fix) = Some [CHR 0x0A]
   \<and> a_edit (createFix example_document (review_diagnostic newline_only_fix))
     = Some (doc_uri example_document, line_range 2, [])"
  by (simp add: strip_trailing_newlines_def is_newline_def review_diagnostic_def
      newline_only_fix_def createFix_def)



section \<open>Timeouts\<close>

text \<open>
  Claim C7, amended. Each command reads the configured \<^verbatim>\<open>requestTimeout\<close> and
  falls back to a default of its own when the setting is absent or zero: 90000 for a
  review and for a security scan, 60000 for a roast and for a complexity run. The
  security scan passes this value multiplied by 1.5 to the backend call, the other
  commands pass it as it is. This is for a configured timeout whose triple is a safe
  integer, where the product of the program is exact.
\<close>

theorem C7_timeouts:
  assumes "\<forall>t. requestTimeout cfg = Some t \<longrightarrow> isSafeInteger (3 * t)"
  shows "(req_timeout (securityScan_request cfg document),
          req_timeout (review_request cfg document),
          req_timeout (roast_request cfg document),
          req_timeout (complexity_request cfg document))
         = (case requestTimeout cfg of
              None \<Rightarrow> (135000, 90000, 60000, 60000)
            | Some t \<Rightarrow>
                if t = 0 then (135000, 90000, 60000, 60000)
                else (of_int t * (3 / 2), of_int t, of_int t, of_int t))"
  by (simp add: securityScan_request_def review_request_def roast_request_def
      complexity_request_def or_number_def split: option.split)

text \<open>
  An instance: the configured timeout 300000 gives 450000 for the security scan.
\<close>

theorem C7_timeouts_witness:
  "(req_timeout (securityScan_request example_config example_document),
    req_timeout (review_request example_config example_document),
    req_timeout (roast_request example_config example_document),
    req_timeout (complexity_request example_config example_document))
   = (450000, 300000, 300000, 300000)"
proof -
  have h: "\<forall>t. requestTimeout example_config = Some t \<longrightarrow> isSafeInteger (3 * t)"
    by (simp add: example_config_def isSafeInteger_def)
  show ?thesis
    using C7_timeouts [OF h, of example_document]
    by (simp add: example_config_def)
qed

text \<open>
  The claim as it is written fails for a configured timeout of zero: the security scan
  passes 135000, which is not zero multiplied by 1.5, and the review passes 90000.
\<close>

theorem C7_counterexample:
  "requestTimeout zero_timeout_config = Some 0
   \<and> req_timeout (securityScan_request zero_timeout_config example_document) = 135000
   \<and> req_timeout (review_request zero_timeout_config example_document) = 90000"
  by (simp add: zero_timeout_config_def securityScan_request_def review_request_def
      or_number_def)

section \<open>Severities\<close>


section \<open>Complexity\<close>

text \<open>
  Claim C9. For a complexity response whose flagged functions have line numbers of
  the wire protocol and whose figures are safe integers, a complexity run adds one
  diagnostic for each function whose \<open>is_complex\<close> flag is set, in the order of the
  response, and none for the others. The callback builds the diagnostic of a flagged
  function without throwing; the diagnostic is anchored at \<open>line_number - 1\<close>, and
  its message contains the name of the function, its complexity and the threshold.
\<close>

theorem C9_only_complex_functions:
  assumes "post (complexity_request cfg document) = Success data"
      and "\<forall>g \<in> set (c_functions data).
             fn_is_complex g \<longrightarrow>
               1 \<le> fn_line_number g \<and> isSafeInteger (fn_line_number g)
               \<and> isSafeInteger (fn_complexity g)"
      and "isSafeInteger (c_threshold data)"
      and "f \<in> set (c_functions data)" and "fn_is_complex f"
  shows "get_diagnostics (devsentinel_complexity post cfg (Some document) st) (doc_uri document)
           = filter (\<lambda>d. \<not> str_includes (d_message d) ''[COMPLEXITY]'')
               (get_diagnostics st (doc_uri document))
             @ map (complexity_diagnostic (c_threshold data))
                 (filter fn_is_complex (c_functions data))
       \<and> try_complexity_diagnostic (c_threshold data) f
           = Inr (complexity_diagnostic (c_threshold data) f)
       \<and> d_range (complexity_diagnostic (c_threshold data) f)
           = line_range (fn_line_number f - 1)
       \<and> start_line (d_range (complexity_diagnostic (c_threshold data) f))
           = fn_line_number f - 1
       \<and> str_includes (d_message (complexity_diagnostic (c_threshold data) f)) (fn_name f)
       \<and> str_includes (d_message (complexity_diagnostic (c_threshold data) f))
           (number_to_string (fn_complexity f))
       \<and> str_includes (d_message (complexity_diagnostic (c_threshold data) f))
           (number_to_string (c_threshold data))"
proof -
  have lines: "\<forall>g \<in> set (c_functions data). fn_is_complex g \<longrightarrow> 1 \<le> fn_line_number g"
    using assms(2) by blast
  have ledger: "get_diagnostics (devsentinel_complexity post cfg (Some document) st)
                  (doc_uri document)
           = filter (\<lambda>d. \<not> str_includes (d_message d) ''[COMPLEXITY]'')
               (get_diagnostics st (doc_uri document))
             @ map (complexity_diagnostic (c_threshold data))
                 (filter fn_is_complex (c_functions data))"
    using assms(1) lines by (rule complexity_success)
  have built: "try_complexity_diagnostic (c_threshold data) f
                 = Inr (complexity_diagnostic (c_threshold data) f)"
    using lines assms(4,5) by (simp add: try_complexity_diagnostic_eq)
  have anchor: "d_range (complexity_diagnostic (c_threshold data) f)
                  = line_range (fn_line_number f - 1)"
    by (simp add: complexity_diagnostic_def)
  from ledger built anchor complexity_message_names [of "c_threshold data" f] show ?thesis
    by (simp add: line_range_start)
qed

text \<open>
  An instance: threshold 10, \<^verbatim>\<open>foo\<close> with complexity 15 flagged and \<^verbatim>\<open>bar\<close>
  with complexity 3 not flagged give one diagnostic, for \<^verbatim>\<open>foo\<close>.
\<close>

theorem C9_only_complex_functions_witness:
  "get_diagnostics
     (devsentinel_complexity (backend_returning foo_bar_data) example_config
        (Some example_document) initial_state)
     (doc_uri example_document)
   = [\<lparr>d_range = \<lparr>start_line = 2, start_character = 0, end_line = 2,
                   end_character = MAX_VALUE\<rparr>,
       d_message = ''[COMPLEXITY] DevSentinel: Function '' @ [CHR 0x27] @ ''foo'' @ [CHR 0x27]
         @ '' has cyclomatic complexity of 15 (threshold: 10)'',
       d_severity = Warning, d_source = Some ''DevSentinel'', d_code = None\<rparr>]"
proof -
  have empty: "get_diagnostics initial_state (doc_uri example_document) = []"
    by (simp add: get_diagnostics_def initial_state_def)
  have d: "complexity_diagnostic 10 foo
    = \<lparr>d_range = \<lparr>start_line = 2, start_character = 0, end_line = 2,
                   end_character = MAX_VALUE\<rparr>,
       d_message = ''[COMPLEXITY] DevSentinel: Function '' @ [CHR 0x27] @ ''foo'' @ [CHR 0x27]
         @ '' has cyclomatic complexity of 15 (threshold: 10)'',
       d_severity = Warning, d_source = Some ''DevSentinel'', d_code = None\<rparr>"
    by (simp add: complexity_diagnostic_def foo_def line_range_def number_to_string_examples)
  have h2: "\<forall>g \<in> set (c_functions foo_bar_data).
             fn_is_complex g \<longrightarrow>
               1 \<le> fn_line_number g \<and> isSafeInteger (fn_line_number g)
               \<and> isSafeInteger (fn_complexity g)"
    by (simp add: foo_bar_fields isSafeInteger_def)
  have h3: "isSafeInteger (c_threshold foo_bar_data)"
    by (simp add: foo_bar_fields isSafeInteger_def)
  have h4: "foo \<in> set (c_functions foo_bar_data)"
    by (simp add: foo_bar_fields)
  have h5: "fn_is_complex foo"
    by (simp add: foo_bar_fields)
  show ?thesis
    using C9_only_complex_functions [where post = "backend_returning foo_bar_data"
        and cfg = example_config and document = example_document and data = foo_bar_data
        and st = initial_state and f = foo, OF backend_returning_eq h2 h3 h4 h5]
    by (simp add: empty foo_bar_fields d)
qed

section \<open>Eviction by the text of the message\<close>

text \<open>
  Claim C10. For responses whose line numbers are line numbers of the wire protocol
  and whose figures are safe integers, a security scan keeps, of the diagnostics of
  the document, exactly those whose message does not contain \<^verbatim>\<open>[SECURITY]\<close>
  anywhere, and a complexity run exactly those whose message does not contain
  \<^verbatim>\<open>[COMPLEXITY]\<close>; the new diagnostics follow the kept ones. There is a review
  comment whose suggestion contains \<^verbatim>\<open>[SECURITY]\<close>: the diagnostic the review
  stores for it is removed by a later security scan.
\<close>

theorem C10_eviction_by_substring:
  assumes "spost (securityScan_request cfg document) = Success reviews"
      and "\<forall>r \<in> set reviews. 1 \<le> line_number r \<and> isSafeInteger (line_number r)"
      and "cpost (complexity_request cfg document) = Success data"
      and "\<forall>g \<in> set (c_functions data).
             fn_is_complex g \<longrightarrow>
               1 \<le> fn_line_number g \<and> isSafeInteger (fn_line_number g)
               \<and> isSafeInteger (fn_complexity g)"
      and "isSafeInteger (c_threshold data)"
  shows "get_diagnostics (devsentinel_securityScan spost cfg (Some document) st)
           (doc_uri document)
         = filter (\<lambda>d. \<not> str_includes (d_message d) ''[SECURITY]'')
             (get_diagnostics st (doc_uri document))
           @ map security_diagnostic reviews
       \<and> get_diagnostics (devsentinel_complexity cpost cfg (Some document) st)
           (doc_uri document)
         = filter (\<lambda>d. \<not> str_includes (d_message d) ''[COMPLEXITY]'')
             (get_diagnostics st (doc_uri document))
           @ map (complexity_diagnostic (c_threshold data))
               (filter fn_is_complex (c_functions data))
       \<and> str_includes (suggestion tagged_suggestion) ''[SECURITY]''
       \<and> get_diagnostics
           (devsentinel_review (backend_returning [tagged_suggestion]) cfg (Some document)
              st)
           (doc_uri document) = [review_diagnostic tagged_suggestion]
       \<and> get_diagnostics
           (devsentinel_securityScan (backend_returning []) cfg (Some document)
              (devsentinel_review (backend_returning [tagged_suggestion]) cfg (Some document)
                 st))
           (doc_uri document) = []"
proof -
  have lines: "\<forall>g \<in> set (c_functions data). fn_is_complex g \<longrightarrow> 1 \<le> fn_line_number g"
    using assms(4) by blast
  have tagged: "str_includes (suggestion tagged_suggestion) ''[SECURITY]''"
    by (simp add: tagged_suggestion_def)
  have tagged_message:
    "str_includes (d_message (review_diagnostic tagged_suggestion)) ''[SECURITY]''"
    by (simp add: review_diagnostic_def tagged_suggestion_def)
  have after_review: "get_diagnostics
           (devsentinel_review (backend_returning [tagged_suggestion]) cfg (Some document)
              st)
           (doc_uri document) = [review_diagnostic tagged_suggestion]"
    by (simp add: review_ledger backend_returning_eq example_line_numbers)
  have after_scan: "get_diagnostics
           (devsentinel_securityScan (backend_returning []) cfg (Some document)
              (devsentinel_review (backend_returning [tagged_suggestion]) cfg (Some document)
                 st))
           (doc_uri document) = []"
    by (simp add: securityScan_ledger backend_returning_eq after_review tagged_message)
  have rlines: "\<forall>r \<in> set reviews. 1 \<le> line_number r"
    using assms(2) by blast
  from securityScan_success [of spost cfg document reviews st, OF assms(1) rlines]
    complexity_success [of cpost cfg document data st, OF assms(3) lines]
    tagged after_review after_scan
  show ?thesis by blast
qed

text \<open>
  An instance: a document with one diagnostic of each kind; a scan and a complexity
  run each replace the diagnostic of their own tag and keep the other two.
\<close>

theorem C10_eviction_by_substring_witness:
  "get_diagnostics
     (devsentinel_securityScan (backend_returning [avoid_eval]) example_config
        (Some example_document) stale_state)
     (doc_uri example_document)
   = [complexity_diagnostic 10 foo, review_diagnostic avoid_eval,
      security_diagnostic avoid_eval]
   \<and> get_diagnostics
     (devsentinel_complexity (backend_returning foo_bar_data) example_config
        (Some example_document) stale_state)
     (doc_uri example_document)
   = [security_diagnostic avoid_eval, review_diagnostic avoid_eval,
      complexity_diagnostic 10 foo]
   \<and> get_diagnostics
     (devsentinel_securityScan (backend_returning []) example_config (Some example_document)
        (devsentinel_review (backend_returning [tagged_suggestion]) example_config
           (Some example_document) stale_state))
     (doc_uri example_document) = []"
proof -
  have before: "get_diagnostics stale_state (doc_uri example_document)
    = [security_diagnostic avoid_eval, complexity_diagnostic 10 foo, review_diagnostic avoid_eval]"
    by (simp add: stale_state_def get_set_diagnostics)
  have plain: "\<not> str_includes (d_message (review_diagnostic avoid_eval)) ''[SECURITY]''"
              "\<not> str_includes (d_message (review_diagnostic avoid_eval)) ''[COMPLEXITY]''"
    by (simp_all add: review_diagnostic_def avoid_eval_def)
  have sec: "\<not> str_includes (d_message (security_diagnostic avoid_eval)) ''[COMPLEXITY]''"
    by (simp add: security_diagnostic_def avoid_eval_def)
  have com: "\<not> str_includes (d_message (complexity_diagnostic 10 foo)) ''[SECURITY]''"
    by (simp add: complexity_diagnostic_def foo_def number_to_string_examples)
  have h2: "\<forall>r \<in> set [avoid_eval]. 1 \<le> line_number r \<and> isSafeInteger (line_number r)"
    by (simp add: example_line_numbers isSafeInteger_def)
  have h4: "\<forall>g \<in> set (c_functions foo_bar_data).
             fn_is_complex g \<longrightarrow>
               1 \<le> fn_line_number g \<and> isSafeInteger (fn_line_number g)
               \<and> isSafeInteger (fn_complexity g)"
    by (simp add: foo_bar_fields isSafeInteger_def)
  have h5: "isSafeInteger (c_threshold foo_bar_data)"
    by (simp add: foo_bar_fields isSafeInteger_def)
  show ?thesis
    using C10_eviction_by_substring [where spost = "backend_returning [avoid_eval]"
        and cpost = "backend_returning foo_bar_data" and cfg = example_config
        and document = example_document and reviews = "[avoid_eval]" and data = foo_bar_data
        and st = stale_state, OF backend_returning_eq h2 backend_returning_eq h4 h5]
    by (simp add: before plain sec com foo_bar_fields security_tagged complexity_tagged)
qed

end
